theory Spec2Isabelle
  imports Main
begin

section \<open>Strings\<close>

text \<open>
  A Python \<^verbatim>\<open>str\<close> is a sequence of Unicode code points. The template of the
  program holds two characters beyond ASCII (the curly quotes U+201C and U+201D) and
  \<^verbatim>\<open>str.strip\<close> removes Unicode whitespace, so a string is modelled as the list
  of its code points; \<open>ascii\<close> reads an ASCII literal.
\<close>

type_synonym pystr = "nat list"

definition ascii :: "string \<Rightarrow> pystr" where
  "ascii s = map of_char s"

text \<open>
  \<^verbatim>\<open>str.isspace\<close> on one code point, as CPython decides it: the ASCII table
  (TAB to CR, FS to US, SPACE) and the Unicode whitespace beyond it.
\<close>

definition py_isspace :: "nat \<Rightarrow> bool" where
  "py_isspace c \<longleftrightarrow>
     (9 \<le> c \<and> c \<le> 13) \<or> (28 \<le> c \<and> c \<le> 32) \<or> c = 133 \<or> c = 160 \<or>
     c = 5760 \<or> (8192 \<le> c \<and> c \<le> 8202) \<or> c = 8232 \<or> c = 8233 \<or>
     c = 8239 \<or> c = 8287 \<or> c = 12288"

text \<open>\<^verbatim>\<open>s.lstrip()\<close>, \<^verbatim>\<open>s.rstrip()\<close> and \<^verbatim>\<open>s.strip()\<close> with no argument.\<close>

definition py_lstrip :: "pystr \<Rightarrow> pystr" where
  "py_lstrip s = dropWhile py_isspace s"

definition py_rstrip :: "pystr \<Rightarrow> pystr" where
  "py_rstrip s = rev (dropWhile py_isspace (rev s))"

definition py_strip :: "pystr \<Rightarrow> pystr" where
  "py_strip s = py_rstrip (py_lstrip s)"

text \<open>
  An f-string with the one replacement field \<^verbatim>\<open>{text_input}\<close>: the literal parts
  are copied, the field is replaced by the value (for a \<^verbatim>\<open>str\<close> value,
  \<^verbatim>\<open>format(v, '')\<close> is \<open>v\<close> itself).
\<close>

datatype fpart = Lit pystr | Field

fun fstring :: "fpart list \<Rightarrow> pystr \<Rightarrow> pystr" where
  "fstring [] v = []"
| "fstring (Lit s # ps) v = s @ fstring ps v"
| "fstring (Field # ps) v = v @ fstring ps v"

section \<open>Exceptions\<close>

text \<open>
  An exception is known to the program by the \<^verbatim>\<open>except\<close> clauses it matches and
  by \<^verbatim>\<open>str(e)\<close>. The classes the program tells apart: \<open>KeyError\<close> and
  \<open>AttributeError\<close> (with their subclasses), any other subclass of
  \<^verbatim>\<open>Exception\<close>, and the subclasses of \<^verbatim>\<open>BaseException\<close> outside
  \<^verbatim>\<open>Exception\<close> (\<^verbatim>\<open>KeyboardInterrupt\<close>, \<^verbatim>\<open>SystemExit\<close>,
  \<^verbatim>\<open>GeneratorExit\<close>).
\<close>

datatype exc_class = KeyError | AttributeError | OtherException | SystemExiting

datatype py_exc = PyExc (exc_class: exc_class) (exc_str: pystr)

text \<open>\<^verbatim>\<open>except Exception\<close> matches.\<close>

definition is_Exception :: "py_exc \<Rightarrow> bool" where
  "is_Exception e \<longleftrightarrow> exc_class e \<noteq> SystemExiting"

text \<open>\<^verbatim>\<open>except (KeyError, AttributeError)\<close> matches.\<close>

definition is_KeyError_or_AttributeError :: "py_exc \<Rightarrow> bool" where
  "is_KeyError_or_AttributeError e \<longleftrightarrow> exc_class e = KeyError \<or> exc_class e = AttributeError"

section \<open>The prompt\<close>

text \<open>
  The text of the template before the first delimiter line: the 18 identifier
  categories and the requested output format.
\<close>

definition instructions :: pystr where
  "instructions =
     ascii ''\<newline>'' @
     ascii ''I want to detect any of the 18 HIPAA identifiers under Section 164.514(a) of the HIPAA Privacy Rules for an individual or of relatives, employers, or household members of the individual. Here are the identifiers:\<newline>'' @
     ascii ''\<newline>'' @
     [8220] @
     ascii ''1. Names;\<newline>'' @
     ascii ''2. All geographical subdivisions smaller than a State, including street address, city, county, precinct, zip code, and their equivalent geocodes, except for the initial three digits of a zip code if specific census conditions are met.\<newline>'' @
     ascii ''3. All elements of dates (except year) for dates directly related to an individual, and all ages over 89.\<newline>'' @
     ascii ''4. Phone numbers;\<newline>'' @
     ascii ''5. Fax numbers;\<newline>'' @
     ascii ''6. Electronic mail addresses;\<newline>'' @
     ascii ''7. Social Security numbers;\<newline>'' @
     ascii ''8. Medical record numbers;\<newline>'' @
     ascii ''9. Health plan beneficiary numbers;\<newline>'' @
     ascii ''10. Account numbers;\<newline>'' @
     ascii ''11. Certificate/license numbers;\<newline>'' @
     ascii ''12. Vehicle identifiers and serial numbers, including license plate numbers;\<newline>'' @
     ascii ''13. Device identifiers and serial numbers;\<newline>'' @
     ascii ''14. Web Universal Resource Locators (URLs);\<newline>'' @
     ascii ''15. Internet Protocol (IP) address numbers;\<newline>'' @
     ascii ''16. Biometric identifiers, including finger and voice prints;\<newline>'' @
     ascii ''17. Full face photographic images and any comparable images; and\<newline>'' @
     ascii ''18. Any other unique identifying number, characteristic, or code.'' @
     [8221] @
     ascii ''\<newline>'' @
     ascii ''\<newline>'' @
     ascii ''Please detect HIPAA identifiers in a step-by-step fashion. First, internally identify all named entities. Then, determine and output which of those entities are part of the 18 HIPAA identifiers.\<newline>'' @
     ascii ''\<newline>'' @
     ascii ''Now you detect HIPAA identifiers, please explain your thinking using this format:\<newline>'' @
     ascii ''\<newline>'' @
     ascii ''Rationale:\<newline>'' @
     ascii ''<your thinking>\<newline>'' @
     ascii ''\<newline>'' @
     ascii ''Final Answer:\<newline>'' @
     ascii ''<List of any HIPAA identifiers found or write \"No HIPAA identifiers in the text\">\<newline>'' @
     ascii ''\<newline>'' @
     ascii ''Here is the text to consider:\<newline>'' @
     ascii ''\<newline>''"

text \<open>The f-string assigned to \<^verbatim>\<open>prompt\<close> in \<^verbatim>\<open>detect_hipaa_identifiers\<close>.\<close>

definition prompt_template :: "fpart list" where
  "prompt_template =
     [Lit (instructions @ ascii ''---\<newline>''), Field, Lit (ascii ''\<newline>---\<newline>'')]"

definition build_prompt :: "pystr \<Rightarrow> pystr" where
  "build_prompt text_input = fstring prompt_template text_input"

section \<open>The model client\<close>

text \<open>
  The generative-text service is outside the program. It is a parameter: given the
  model name, the prompts sent so far in this process and the prompt of this call, it
  gives the response text (\<^verbatim>\<open>genai.GenerativeModel(name).generate_content(prompt).text\<close>)
  or the exception raised on the way. The list of prompts sent is the only state
  threaded through the program; the program itself keeps none.
\<close>

type_synonym service = "pystr \<Rightarrow> pystr list \<Rightarrow> pystr \<Rightarrow> py_exc + pystr"

definition error_message :: "py_exc \<Rightarrow> pystr" where
  "error_message e =
     ascii ''Error: Could not contact the AI model. This might be due to a rate limit or other API issue. Please try again later. Details: '' @
     exc_str e"

text \<open>
  \<^verbatim>\<open>detect_hipaa_identifiers(text_input)\<close>: the result is the returned string
  (\<open>Inr\<close>) or the exception that leaves the function (\<open>Inl\<close>), with the
  prompts sent so far.
\<close>

definition detect_hipaa_identifiers ::
    "service \<Rightarrow> pystr list \<Rightarrow> pystr \<Rightarrow> (py_exc + pystr) \<times> pystr list" where
  "detect_hipaa_identifiers genai sent text_input =
     (let prompt = build_prompt text_input in
      case genai (ascii ''gemini-2.5-pro'') sent prompt of
        Inr text \<Rightarrow> (Inr (py_strip text), sent @ [prompt])
      | Inl e \<Rightarrow>
          if is_Exception e then (Inr (error_message e), sent @ [prompt])
          else (Inl e, sent @ [prompt]))"

section \<open>The page\<close>

text \<open>
  What one run of the script puts on the page, in order: one constructor for each
  Streamlit call the script makes, holding the arguments of the call.
\<close>

datatype element =
    PageConfig pystr pystr pystr
  | StError pystr
  | Title pystr
  | Markdown pystr
  | TextArea pystr pystr nat
  | Button pystr pystr
  | Spinner pystr
  | Subheader pystr
  | Warning pystr

text \<open>
  How a run ends: the script reaches its last line, \<^verbatim>\<open>st.stop()\<close> halts it, or an
  exception leaves it.
\<close>

datatype status = Finished | Stopped | Uncaught py_exc

record run =
  rendered :: "element list"
  sent :: "pystr list"
  status :: status

text \<open>
  What a run reads from outside the script: the secret store
  (\<^verbatim>\<open>st.secrets[key]\<close>, the value or the exception raised), the client library's
  \<^verbatim>\<open>genai.configure(api_key=...)\<close> (the exception raised, if any), the value of
  the text area and whether the button was clicked.
\<close>

record env =
  st_secrets :: "pystr \<Rightarrow> py_exc + pystr"
  genai_configure :: "pystr \<Rightarrow> py_exc option"
  st_text_area :: pystr
  st_button :: bool

definition shield :: pystr where
  "shield = [128737, 65039]"

definition example_text :: pystr where
  "example_text =
     ascii ''David Johnson, born 11/02/1980, lives at 22 Pine Street, Boston, MA 02108. His phone number is (617) 555-3210. He came in complaining of headaches and blurred vision.''"

text \<open>
  The body of \<^verbatim>\<open>if st.button(...)\<close>: the handler of the trigger. The condition
  \<^verbatim>\<open>user_input and user_input.strip()\<close> is the truth value of two strings.
\<close>

definition on_click :: "service \<Rightarrow> pystr list \<Rightarrow> pystr \<Rightarrow> run" where
  "on_click genai sent0 user_input =
     (if user_input \<noteq> [] \<and> py_strip user_input \<noteq> [] then
        (case detect_hipaa_identifiers genai sent0 user_input of
           (Inr result, sent1) \<Rightarrow>
             \<lparr>rendered = [Spinner ([128269] @ ascii '' Analyzing text...''),
                          Subheader (ascii ''Analysis Result''),
                          Markdown result],
              sent = sent1, status = Finished\<rparr>
         | (Inl e, sent1) \<Rightarrow>
             \<lparr>rendered = [Spinner ([128269] @ ascii '' Analyzing text...'')],
              sent = sent1, status = Uncaught e\<rparr>)
      else
        \<lparr>rendered = [Warning (ascii ''Please enter some text to analyze.'')],
         sent = sent0, status = Finished\<rparr>)"

text \<open>
  The expression \<^verbatim>\<open>genai.configure(api_key=st.secrets["google_api_key"])\<close>: the
  exception it raises, if any.
\<close>

definition startup :: "env \<Rightarrow> py_exc option" where
  "startup env =
     (case st_secrets env (ascii ''google_api_key'') of
        Inl e \<Rightarrow> Some e
      | Inr api_key \<Rightarrow> genai_configure env api_key)"

text \<open>One run of the script \<^verbatim>\<open>app.py\<close>, from the prompts sent before it.\<close>

definition app :: "env \<Rightarrow> service \<Rightarrow> pystr list \<Rightarrow> run" where
  "app env genai sent0 =
     (let page = [PageConfig (ascii ''HIPAA Identifier Detector'') shield (ascii ''centered'')] in
      case startup env of
        Some e \<Rightarrow>
          if is_KeyError_or_AttributeError e then
            \<lparr>rendered = page @
               [StError (ascii ''Your Google API key is missing or invalid. Please create a `.streamlit/secrets.toml` file with your key.'')],
             sent = sent0, status = Stopped\<rparr>
          else \<lparr>rendered = page, sent = sent0, status = Uncaught e\<rparr>
      | None \<Rightarrow>
          (let form = page @
             [Title (shield @ ascii '' HIPAA Identifier Detector''),
              Markdown (ascii ''This app uses AI to detect Protected Health Information (PHI) based on the 18 HIPAA identifiers. Paste text below to analyze it for potential PHI.''),
              TextArea (ascii ''Enter text to be analyzed for HIPAA identifiers:'') example_text 200,
              Button (ascii ''Detect Identifiers'') (ascii ''primary'')] in
           if st_button env then
             (let r = on_click genai sent0 (st_text_area env) in
              r\<lparr>rendered := form @ rendered r\<rparr>)
           else \<lparr>rendered = form, sent = sent0, status = Finished\<rparr>))"

section \<open>Test doubles\<close>

text \<open>
  Fixed services and secret stores, for evaluating the program at concrete inputs: a
  service that returns the same text on every call and one that raises the same exception
  on every call; a secret store that exists and has no entry (subscripting it raises
  \<^verbatim>\<open>KeyError\<close>, with the library's message) and a secret store that holds an
  entry for \<^verbatim>\<open>google_api_key\<close> only; and a \<^verbatim>\<open>configure\<close> that stores
  the key it is given without checking it.
\<close>

definition mock_returning :: "pystr \<Rightarrow> service" where
  "mock_returning R model sent0 prompt = Inr R"

definition mock_raising :: "py_exc \<Rightarrow> service" where
  "mock_raising e model sent0 prompt = Inl e"

definition store_without_key :: "pystr \<Rightarrow> pystr \<Rightarrow> py_exc + pystr" where
  "store_without_key message key = Inl (PyExc KeyError message)"

definition store_with_key :: "pystr \<Rightarrow> pystr \<Rightarrow> pystr \<Rightarrow> py_exc + pystr" where
  "store_with_key message api_key key =
     (if key = ascii ''google_api_key'' then Inr api_key else Inl (PyExc KeyError message))"

definition configure_ok :: "pystr \<Rightarrow> py_exc option" where
  "configure_ok api_key = None"

section \<open>Properties of the string operations\<close>

lemma ascii_append: "ascii (xs @ ys) = ascii xs @ ascii ys"
  by (simp add: ascii_def)

lemma build_prompt_eq:
  "build_prompt x = (instructions @ ascii ''---\<newline>'') @ x @ ascii ''\<newline>---\<newline>''"
  by (simp add: build_prompt_def prompt_template_def)

lemma py_strip_Nil_iff: "py_strip s = [] \<longleftrightarrow> (\<forall>c\<in>set s. py_isspace c)"
proof
  assume "py_strip s = []"
  then have all: "\<forall>c\<in>set (dropWhile py_isspace s). py_isspace c"
    by (simp add: py_strip_def py_rstrip_def py_lstrip_def)
  have "dropWhile py_isspace s = []"
  proof (rule ccontr)
    assume ne: "dropWhile py_isspace s \<noteq> []"
    then have "\<not> py_isspace (hd (dropWhile py_isspace s))"
      by (rule hd_dropWhile)
    moreover have "hd (dropWhile py_isspace s) \<in> set (dropWhile py_isspace s)"
      using ne by simp
    ultimately show False using all by blast
  qed
  then show "\<forall>c\<in>set s. py_isspace c"
    by (simp add: dropWhile_eq_Nil_conv)
next
  assume "\<forall>c\<in>set s. py_isspace c"
  then have "dropWhile py_isspace s = []" by simp
  then show "py_strip s = []"
    unfolding py_strip_def py_rstrip_def py_lstrip_def by (simp only: rev.simps dropWhile.simps)
qed

lemma py_strip_decompose:
  "s = takeWhile py_isspace s @ py_strip s @ rev (takeWhile py_isspace (rev (dropWhile py_isspace s)))"
proof -
  let ?t = "dropWhile py_isspace s"
  have "rev ?t = takeWhile py_isspace (rev ?t) @ dropWhile py_isspace (rev ?t)"
    by simp
  then have "rev (rev ?t) = rev (takeWhile py_isspace (rev ?t) @ dropWhile py_isspace (rev ?t))"
    by simp
  then have "?t = rev (dropWhile py_isspace (rev ?t)) @ rev (takeWhile py_isspace (rev ?t))"
    by (simp only: rev_rev_ident rev_append)
  then have "?t = py_strip s @ rev (takeWhile py_isspace (rev ?t))"
    by (simp add: py_strip_def py_rstrip_def py_lstrip_def)
  moreover have "s = takeWhile py_isspace s @ ?t" by simp
  ultimately show ?thesis by metis
qed

lemma py_strip_hd: "py_strip s \<noteq> [] \<Longrightarrow> \<not> py_isspace (hd (py_strip s))"
proof -
  assume ne: "py_strip s \<noteq> []"
  let ?t = "dropWhile py_isspace s"
  have tne: "?t \<noteq> []"
  proof
    assume "?t = []"
    then have "py_strip s = []"
      unfolding py_strip_def py_rstrip_def py_lstrip_def by (simp only: rev.simps dropWhile.simps)
    with ne show False by contradiction
  qed
  have "?t = py_strip s @ rev (takeWhile py_isspace (rev ?t))"
    using py_strip_decompose[of s] by (metis same_append_eq takeWhile_dropWhile_id)
  then have "hd ?t = hd (py_strip s)" using ne by (metis hd_append2)
  moreover have "\<not> py_isspace (hd ?t)" using tne by (rule hd_dropWhile)
  ultimately show ?thesis by simp
qed

lemma py_strip_last: "py_strip s \<noteq> [] \<Longrightarrow> \<not> py_isspace (last (py_strip s))"
proof -
  assume ne: "py_strip s \<noteq> []"
  let ?u = "dropWhile py_isspace (rev (dropWhile py_isspace s))"
  have eq: "py_strip s = rev ?u" by (simp add: py_strip_def py_rstrip_def py_lstrip_def)
  then have une: "?u \<noteq> []" using ne by simp
  then have "\<not> py_isspace (hd ?u)" by (rule hd_dropWhile)
  moreover have "last (rev ?u) = hd ?u" using une by (simp add: last_rev)
  ultimately show ?thesis using eq by simp
qed

lemma nonblank_cond:
  "(\<exists>c\<in>set s. \<not> py_isspace c) \<longleftrightarrow> s \<noteq> [] \<and> py_strip s \<noteq> []"
  using py_strip_Nil_iff[of s] by auto

lemma error_message_parts:
  "error_message e =
     ascii ''Error:'' @
     ascii '' Could not contact the AI model. This might be due to a rate limit or other API issue. Please try again later. Details: '' @
     exc_str e"
  by (simp add: error_message_def ascii_def)

section \<open>Properties of the client and of the handler\<close>

lemma detect_sent:
  "snd (detect_hipaa_identifiers genai sent0 text_input) = sent0 @ [build_prompt text_input]"
  by (simp add: detect_hipaa_identifiers_def Let_def split: sum.split)

lemma detect_Inr:
  "genai (ascii ''gemini-2.5-pro'') sent0 (build_prompt text_input) = Inr R \<Longrightarrow>
   detect_hipaa_identifiers genai sent0 text_input = (Inr (py_strip R), sent0 @ [build_prompt text_input])"
  by (simp add: detect_hipaa_identifiers_def Let_def)

lemma detect_Inl:
  "genai (ascii ''gemini-2.5-pro'') sent0 (build_prompt text_input) = Inl e \<Longrightarrow> is_Exception e \<Longrightarrow>
   detect_hipaa_identifiers genai sent0 text_input = (Inr (error_message e), sent0 @ [build_prompt text_input])"
  by (simp add: detect_hipaa_identifiers_def Let_def)

lemma on_click_page:
  assumes "fst (detect_hipaa_identifiers genai s1 user_input) =
           fst (detect_hipaa_identifiers genai s2 user_input)"
  shows "rendered (on_click genai s1 user_input) = rendered (on_click genai s2 user_input) \<and>
         status (on_click genai s1 user_input) = status (on_click genai s2 user_input)"
proof -
  obtain r1 t1 where d1: "detect_hipaa_identifiers genai s1 user_input = (r1, t1)"
    by (cases "detect_hipaa_identifiers genai s1 user_input")
  obtain r2 t2 where d2: "detect_hipaa_identifiers genai s2 user_input = (r2, t2)"
    by (cases "detect_hipaa_identifiers genai s2 user_input")
  have "r1 = r2" using assms d1 d2 by simp
  then show ?thesis
    by (simp add: on_click_def d1 d2 split: sum.split)
qed

text \<open>
  An exception outside \<^verbatim>\<open>Exception\<close> is not matched by the handler of
  \<^verbatim>\<open>detect_hipaa_identifiers\<close> and leaves the function.
\<close>

lemma detect_not_caught:
  "genai (ascii ''gemini-2.5-pro'') sent0 (build_prompt text_input) = Inl e \<Longrightarrow> \<not> is_Exception e \<Longrightarrow>
   detect_hipaa_identifiers genai sent0 text_input = (Inl e, sent0 @ [build_prompt text_input])"
  by (simp add: detect_hipaa_identifiers_def Let_def)

text \<open>
  What \<open>py_strip\<close> removes is whitespace around the result, and nothing else.
\<close>

lemma py_strip_surrounding:
  "\<exists>lead trail. R = lead @ py_strip R @ trail \<and>
     list_all py_isspace lead \<and> list_all py_isspace trail"
proof -
  let ?lead = "takeWhile py_isspace R"
  let ?trail = "rev (takeWhile py_isspace (rev (dropWhile py_isspace R)))"
  have "R = ?lead @ py_strip R @ ?trail"
    by (rule py_strip_decompose)
  moreover have "list_all py_isspace ?lead"
    by (auto simp: list_all_iff dest: set_takeWhileD)
  moreover have "list_all py_isspace ?trail"
    by (auto simp: list_all_iff dest: set_takeWhileD)
  ultimately show ?thesis by blast
qed

text \<open>
  An exception of the credential expression that is neither a \<^verbatim>\<open>KeyError\<close> nor
  an \<^verbatim>\<open>AttributeError\<close> (the \<^verbatim>\<open>FileNotFoundError\<close> of a missing secrets
  file, for one) is not matched at startup: it leaves the script and the
  configuration-error message is not shown.
\<close>

lemma startup_not_caught:
  "startup env = Some e \<Longrightarrow> \<not> is_KeyError_or_AttributeError e \<Longrightarrow>
   app env genai sent0 =
     \<lparr>rendered = [PageConfig (ascii ''HIPAA Identifier Detector'') shield (ascii ''centered'')],
      sent = sent0, status = Uncaught e\<rparr>"
  by (simp add: app_def)

section \<open>The claims\<close>

text \<open>
  Claim C1. For every non-empty input string, the prompt built by
  \<^verbatim>\<open>detect_hipaa_identifiers\<close> is the fixed instructions, the delimiter line
  \<^verbatim>\<open>---\<close>, the input unchanged, and the closing delimiter line: the input is a
  contiguous part of the prompt, between the two delimiter markers.
\<close>

theorem prompt_contains_input:
  "text_input \<noteq> [] \<Longrightarrow>
   build_prompt text_input =
     instructions @ ascii ''---\<newline>'' @ text_input @ ascii ''\<newline>---\<newline>'' \<and>
   (\<exists>before after. build_prompt text_input = before @ text_input @ after)"
proof -
  have eq: "build_prompt text_input =
      instructions @ ascii ''---\<newline>'' @ text_input @ ascii ''\<newline>---\<newline>''"
    by (simp add: build_prompt_eq)
  then have "\<exists>before after. build_prompt text_input = before @ text_input @ after"
    by (metis append.assoc)
  with eq show ?thesis by blast
qed

text \<open>The theorem at the input \<^verbatim>\<open>Jane Roe\<close>.\<close>

theorem prompt_contains_input_witness:
  "ascii ''Jane Roe'' \<noteq> [] \<and>
   build_prompt (ascii ''Jane Roe'') =
     instructions @ ascii ''---\<newline>'' @ ascii ''Jane Roe'' @ ascii ''\<newline>---\<newline>''"
  using prompt_contains_input [of "ascii ''Jane Roe''"] by (simp add: ascii_def)

text \<open>
  Claim C2. When the service call raises an exception that
  \<^verbatim>\<open>except Exception\<close> matches (a transport, authentication, rate-limit or any other
  error derived from \<^verbatim>\<open>Exception\<close>), \<^verbatim>\<open>detect_hipaa_identifiers\<close> returns a
  string: it begins with \<^verbatim>\<open>Error:\<close> and ends with \<^verbatim>\<open>str(e)\<close>. On a non-blank
  input the handler shows that string and the run finishes normally.
\<close>

theorem service_failure_becomes_error_string:
  assumes "genai (ascii ''gemini-2.5-pro'') sent0 (build_prompt text_input) = Inl e"
    and "is_Exception e"
  shows "fst (detect_hipaa_identifiers genai sent0 text_input) =
           Inr (ascii ''Error:'' @
                ascii '' Could not contact the AI model. This might be due to a rate limit or other API issue. Please try again later. Details: '' @
                exc_str e) \<and>
         ((\<exists>c\<in>set text_input. \<not> py_isspace c) \<longrightarrow>
            status (on_click genai sent0 text_input) = Finished \<and>
            last (rendered (on_click genai sent0 text_input)) = Markdown (error_message e))"
proof -
  have d: "detect_hipaa_identifiers genai sent0 text_input =
      (Inr (error_message e), sent0 @ [build_prompt text_input])"
    using assms by (rule detect_Inl)
  have "fst (detect_hipaa_identifiers genai sent0 text_input) = Inr (error_message e)"
    by (simp add: d)
  moreover have "(\<exists>c\<in>set text_input. \<not> py_isspace c) \<longrightarrow>
      status (on_click genai sent0 text_input) = Finished \<and>
      last (rendered (on_click genai sent0 text_input)) = Markdown (error_message e)"
    by (simp add: nonblank_cond on_click_def d)
  ultimately show ?thesis by (simp only: error_message_parts)
qed

text \<open>The theorem at a service that raises a quota error.\<close>

theorem service_failure_becomes_error_string_witness:
  "fst (detect_hipaa_identifiers (mock_raising (PyExc OtherException (ascii ''429 quota''))) [] (ascii ''Jane'')) =
     Inr (ascii ''Error: Could not contact the AI model. This might be due to a rate limit or other API issue. Please try again later. Details: 429 quota'') \<and>
   status (on_click (mock_raising (PyExc OtherException (ascii ''429 quota''))) [] (ascii ''Jane'')) = Finished"
proof -
  let ?e = "PyExc OtherException (ascii ''429 quota'')"
  have h1: "mock_raising ?e (ascii ''gemini-2.5-pro'') [] (build_prompt (ascii ''Jane'')) = Inl ?e"
    by (simp add: mock_raising_def)
  have h2: "is_Exception ?e"
    by (simp add: is_Exception_def)
  have h3: "\<exists>c\<in>set (ascii ''Jane''). \<not> py_isspace c"
    by (simp add: ascii_def py_isspace_def)
  show ?thesis
    using service_failure_becomes_error_string [of "mock_raising ?e" "[]" "ascii ''Jane''" ?e, OF h1 h2] h3 by (simp add: ascii_def)
qed

text \<open>
  Claim C3. When the service call returns the text \<open>R\<close>,
  \<^verbatim>\<open>detect_hipaa_identifiers\<close> returns \<open>R\<close> trimmed: \<open>R\<close> is the result
  between a run of leading and a run of trailing whitespace, and the result neither starts
  nor ends with whitespace. On a non-blank input the handler shows exactly that result.
\<close>

theorem success_returns_trimmed_response:
  assumes "genai (ascii ''gemini-2.5-pro'') sent0 (build_prompt text_input) = Inr R"
  shows "fst (detect_hipaa_identifiers genai sent0 text_input) = Inr (py_strip R) \<and>
         (\<exists>lead trail. R = lead @ py_strip R @ trail \<and>
            (\<forall>c\<in>set lead. py_isspace c) \<and> (\<forall>c\<in>set trail. py_isspace c)) \<and>
         (py_strip R \<noteq> [] \<longrightarrow>
            \<not> py_isspace (hd (py_strip R)) \<and> \<not> py_isspace (last (py_strip R))) \<and>
         ((\<exists>c\<in>set text_input. \<not> py_isspace c) \<longrightarrow>
            status (on_click genai sent0 text_input) = Finished \<and>
            last (rendered (on_click genai sent0 text_input)) = Markdown (py_strip R))"
proof -
  have d: "detect_hipaa_identifiers genai sent0 text_input =
      (Inr (py_strip R), sent0 @ [build_prompt text_input])"
    using assms by (rule detect_Inr)
  have a: "fst (detect_hipaa_identifiers genai sent0 text_input) = Inr (py_strip R)"
    by (simp add: d)
  let ?lead = "takeWhile py_isspace R"
  let ?trail = "rev (takeWhile py_isspace (rev (dropWhile py_isspace R)))"
  have "R = ?lead @ py_strip R @ ?trail"
    by (rule py_strip_decompose)
  moreover have "\<forall>c\<in>set ?lead. py_isspace c"
    by (auto dest: set_takeWhileD)
  moreover have "\<forall>c\<in>set ?trail. py_isspace c"
    by (auto dest: set_takeWhileD)
  ultimately have b: "\<exists>lead trail. R = lead @ py_strip R @ trail \<and>
      (\<forall>c\<in>set lead. py_isspace c) \<and> (\<forall>c\<in>set trail. py_isspace c)"
    by blast
  have c: "py_strip R \<noteq> [] \<longrightarrow>
      \<not> py_isspace (hd (py_strip R)) \<and> \<not> py_isspace (last (py_strip R))"
    using py_strip_hd [of R] py_strip_last [of R] by blast
  have e: "(\<exists>c\<in>set text_input. \<not> py_isspace c) \<longrightarrow>
      status (on_click genai sent0 text_input) = Finished \<and>
      last (rendered (on_click genai sent0 text_input)) = Markdown (py_strip R)"
    by (simp add: nonblank_cond on_click_def d)
  from a b c e show ?thesis by blast
qed

text \<open>The theorem at a service whose response has whitespace on both sides.\<close>

theorem success_returns_trimmed_response_witness:
  "fst (detect_hipaa_identifiers (mock_returning (ascii ''  Final Answer: Name \<newline>'')) [] (ascii ''Jane'')) =
     Inr (ascii ''Final Answer: Name'') \<and>
   last (rendered (on_click (mock_returning (ascii ''  Final Answer: Name \<newline>'')) [] (ascii ''Jane''))) =
     Markdown (ascii ''Final Answer: Name'')"
proof -
  let ?R = "ascii ''  Final Answer: Name \<newline>''"
  have h1: "mock_returning ?R (ascii ''gemini-2.5-pro'') [] (build_prompt (ascii ''Jane'')) = Inr ?R"
    by (simp add: mock_returning_def)
  have h2: "\<exists>c\<in>set (ascii ''Jane''). \<not> py_isspace c"
    by (simp add: ascii_def py_isspace_def)
  have h3: "py_strip ?R = ascii ''Final Answer: Name''"
    by (simp add: ascii_def py_strip_def py_lstrip_def py_rstrip_def py_isspace_def)
  show ?thesis
    using success_returns_trimmed_response [of "mock_returning ?R" "[]" "ascii ''Jane''" ?R, OF h1] h2
    by (simp only: h3)
qed

text \<open>
  Claim C4. When the input is empty or holds only whitespace, the
  handler of the button shows the warning and nothing else, and the list of prompts sent
  is unchanged: no call is made.
\<close>

theorem blank_input_warns_without_call:
  "\<forall>c\<in>set user_input. py_isspace c \<Longrightarrow>
   on_click genai sent0 user_input =
     \<lparr>rendered = [Warning (ascii ''Please enter some text to analyze.'')],
      sent = sent0, status = Finished\<rparr>"
proof -
  assume "\<forall>c\<in>set user_input. py_isspace c"
  then have "\<not> (user_input \<noteq> [] \<and> py_strip user_input \<noteq> [])"
    using nonblank_cond [of user_input] by blast
  then show ?thesis
    by (auto simp: on_click_def)
qed

text \<open>The theorem at an input of a space, a newline and a space.\<close>

theorem blank_input_warns_without_call_witness:
  "list_all py_isspace (ascii '' \<newline> '') \<and>
   on_click (mock_returning (ascii ''unused'')) [] (ascii '' \<newline> '') =
     \<lparr>rendered = [Warning (ascii ''Please enter some text to analyze.'')],
      sent = [], status = Finished\<rparr>"
proof -
  have h: "\<forall>c\<in>set (ascii '' \<newline> ''). py_isspace c"
    by (simp add: ascii_def py_isspace_def)
  show ?thesis
    using h blank_input_warns_without_call [OF h, of "mock_returning (ascii ''unused'')" "[]"]
    by (simp add: list_all_iff)
qed

text \<open>
  Claim C5. The secret store holds a malformed key (\<^verbatim>\<open>not a key\<close>) and
  \<^verbatim>\<open>configure\<close> stores it unchecked: startup raises nothing, the form with the
  button is rendered, the click sends the prompt and the run finishes. A malformed
  credential does not halt startup.
\<close>

theorem malformed_credential_counterexample:
  "startup \<lparr>st_secrets = store_with_key (ascii ''no such key'') (ascii ''not a key''),
            genai_configure = configure_ok,
            st_text_area = ascii ''Jane'', st_button = True\<rparr> = None \<and>
   Button (ascii ''Detect Identifiers'') (ascii ''primary'') \<in>
     set (rendered
       (app \<lparr>st_secrets = store_with_key (ascii ''no such key'') (ascii ''not a key''),
             genai_configure = configure_ok,
             st_text_area = ascii ''Jane'', st_button = True\<rparr>
            (mock_returning (ascii ''ok'')) [])) \<and>
   sent
     (app \<lparr>st_secrets = store_with_key (ascii ''no such key'') (ascii ''not a key''),
           genai_configure = configure_ok,
           st_text_area = ascii ''Jane'', st_button = True\<rparr>
          (mock_returning (ascii ''ok'')) []) = [build_prompt (ascii ''Jane'')] \<and>
   status
     (app \<lparr>st_secrets = store_with_key (ascii ''no such key'') (ascii ''not a key''),
           genai_configure = configure_ok,
           st_text_area = ascii ''Jane'', st_button = True\<rparr>
          (mock_returning (ascii ''ok'')) []) = Finished"
proof -
  let ?env = "\<lparr>st_secrets = store_with_key (ascii ''no such key'') (ascii ''not a key''),
      genai_configure = configure_ok,
      st_text_area = ascii ''Jane'', st_button = True\<rparr>"
  let ?g = "mock_returning (ascii ''ok'')"
  have s: "startup ?env = None"
    by (simp add: startup_def store_with_key_def configure_ok_def)
  have nb: "\<exists>c\<in>set (ascii ''Jane''). \<not> py_isspace c"
    by (simp add: ascii_def py_isspace_def)
  then have c: "ascii ''Jane'' \<noteq> [] \<and> py_strip (ascii ''Jane'') \<noteq> []"
    using nonblank_cond [of "ascii ''Jane''"] by blast
  have d: "detect_hipaa_identifiers ?g [] (ascii ''Jane'') =
      (Inr (py_strip (ascii ''ok'')), [] @ [build_prompt (ascii ''Jane'')])"
    by (rule detect_Inr) (simp add: mock_returning_def)
  have o: "on_click ?g [] (ascii ''Jane'') =
      \<lparr>rendered = [Spinner ([128269] @ ascii '' Analyzing text...''),
                   Subheader (ascii ''Analysis Result''),
                   Markdown (py_strip (ascii ''ok''))],
       sent = [build_prompt (ascii ''Jane'')], status = Finished\<rparr>"
    using c by (simp add: on_click_def d)
  show ?thesis
    by (simp add: s app_def o Let_def)
qed

text \<open>
  Claim C5 (as amended). When reading the key from the secret store, or configuring the
  client with it, raises \<^verbatim>\<open>KeyError\<close> or \<^verbatim>\<open>AttributeError\<close> (as an
  existing store without an entry for the key does), the run shows the page configuration
  and the configuration-error message, sends nothing and is stopped. This holds for every
  value of the text area and every state of the button, so no action is reachable, in
  this run or in a later one with the same store.
\<close>

theorem missing_credential_halts_startup:
  assumes "startup env = Some e"
    and "is_KeyError_or_AttributeError e"
  shows "app (env\<lparr>st_text_area := user_input, st_button := clicked\<rparr>) genai sent0 =
           \<lparr>rendered =
              [PageConfig (ascii ''HIPAA Identifier Detector'') shield (ascii ''centered''),
               StError (ascii ''Your Google API key is missing or invalid. Please create a `.streamlit/secrets.toml` file with your key.'')],
            sent = sent0, status = Stopped\<rparr>"
proof -
  have "startup (env\<lparr>st_text_area := user_input, st_button := clicked\<rparr>) = startup env"
    by (simp add: startup_def split: sum.split)
  then show ?thesis
    using assms by (simp add: app_def)
qed

text \<open>The theorem at a secret store without an entry for the key, with the button clicked.\<close>

theorem missing_credential_halts_startup_witness:
  "app \<lparr>st_secrets = store_without_key (ascii ''no such key''), genai_configure = configure_ok,
        st_text_area = ascii ''Jane'', st_button = True\<rparr>
       (mock_returning (ascii ''unused'')) [] =
     \<lparr>rendered =
        [PageConfig (ascii ''HIPAA Identifier Detector'') shield (ascii ''centered''),
         StError (ascii ''Your Google API key is missing or invalid. Please create a `.streamlit/secrets.toml` file with your key.'')],
      sent = [], status = Stopped\<rparr>"
proof -
  let ?env = "\<lparr>st_secrets = store_without_key (ascii ''no such key''), genai_configure = configure_ok,
      st_text_area = [], st_button = False\<rparr>"
  let ?e = "PyExc KeyError (ascii ''no such key'')"
  have h1: "startup ?env = Some ?e"
    by (simp add: startup_def store_without_key_def)
  have h2: "is_KeyError_or_AttributeError ?e"
    by (simp add: is_KeyError_or_AttributeError_def)
  show ?thesis
    using missing_credential_halts_startup
      [where env = ?env and e = ?e and user_input = "ascii ''Jane''" and clicked = True
         and genai = "mock_returning (ascii ''unused'')" and ?sent0.0 = "[]", OF h1 h2]
    by simp
qed

text \<open>
  Claim C6. The service call succeeds with a response that is only
  whitespace, and the result of \<^verbatim>\<open>detect_hipaa_identifiers\<close> is the empty string: a
  successful result need not be non-empty.
\<close>

theorem result_nonempty_counterexample:
  "mock_returning (ascii '' \<newline>'') (ascii ''gemini-2.5-pro'') [] (build_prompt (ascii ''Jane'')) =
     Inr (ascii '' \<newline>'') \<and>
   fst (detect_hipaa_identifiers (mock_returning (ascii '' \<newline>'')) [] (ascii ''Jane'')) = Inr []"
  by (simp add: detect_hipaa_identifiers_def mock_returning_def Let_def
      py_strip_def py_lstrip_def py_rstrip_def py_isspace_def ascii_def)

text \<open>
  Claim C6 (as amended). When the service call returns the text \<open>R\<close>,
  \<^verbatim>\<open>detect_hipaa_identifiers\<close> returns \<open>R\<close> with the whitespace around it
  removed (\<open>R\<close> is the result between a run of leading and a run of trailing
  whitespace, and the result neither starts nor ends with whitespace), and that result is
  non-empty exactly when \<open>R\<close> holds a character that is not whitespace.
\<close>

theorem result_nonempty_iff_response_nonblank:
  assumes "genai (ascii ''gemini-2.5-pro'') sent0 (build_prompt text_input) = Inr R"
  shows "fst (detect_hipaa_identifiers genai sent0 text_input) = Inr (py_strip R) \<and>
         (\<exists>lead trail. R = lead @ py_strip R @ trail \<and>
            list_all py_isspace lead \<and> list_all py_isspace trail) \<and>
         (py_strip R \<noteq> [] \<longrightarrow>
            \<not> py_isspace (hd (py_strip R)) \<and> \<not> py_isspace (last (py_strip R))) \<and>
         (py_strip R \<noteq> [] \<longleftrightarrow> (\<exists>c\<in>set R. \<not> py_isspace c))"
proof -
  have a: "fst (detect_hipaa_identifiers genai sent0 text_input) = Inr (py_strip R)"
    using detect_Inr [of genai sent0 text_input R, OF assms] by simp
  have b: "\<exists>lead trail. R = lead @ py_strip R @ trail \<and>
      list_all py_isspace lead \<and> list_all py_isspace trail"
    by (rule py_strip_surrounding)
  have c: "py_strip R \<noteq> [] \<longrightarrow>
      \<not> py_isspace (hd (py_strip R)) \<and> \<not> py_isspace (last (py_strip R))"
    using py_strip_hd [of R] py_strip_last [of R] by blast
  have d: "py_strip R \<noteq> [] \<longleftrightarrow> (\<exists>c\<in>set R. \<not> py_isspace c)"
    using py_strip_Nil_iff [of R] by blast
  from a b c d show ?thesis by blast
qed

text \<open>The theorem at a service that returns \<^verbatim>\<open> ok \<close>: the result is \<^verbatim>\<open>ok\<close>.\<close>

theorem result_nonempty_iff_response_nonblank_witness:
  "fst (detect_hipaa_identifiers (mock_returning (ascii '' ok '')) [] (ascii ''Jane'')) =
     Inr (ascii ''ok'') \<and>
   ascii ''ok'' \<noteq> []"
proof -
  let ?R = "ascii '' ok ''"
  have h: "mock_returning ?R (ascii ''gemini-2.5-pro'') [] (build_prompt (ascii ''Jane'')) = Inr ?R"
    by (simp add: mock_returning_def)
  have h3: "py_strip ?R = ascii ''ok''"
    by (simp add: ascii_def py_strip_def py_lstrip_def py_rstrip_def py_isspace_def)
  have "fst (detect_hipaa_identifiers (mock_returning ?R) [] (ascii ''Jane'')) = Inr (py_strip ?R)"
    using result_nonempty_iff_response_nonblank
      [of "mock_returning ?R" "[]" "ascii ''Jane''" ?R, OF h] by blast
  then show ?thesis
    by (simp add: h3) (simp add: ascii_def)
qed

text \<open>
  Claim C7. The prompt handed to the service is \<open>build_prompt\<close> of
  the input, whatever the service and whatever was sent before: two evaluations on the
  same input give the same prompt. Building it changes nothing (the prompts sent before
  are as they were; the one call is the only effect of the function), and the empty
  string is accepted like any other input.
\<close>

theorem prompt_depends_on_input_only:
  "last (snd (detect_hipaa_identifiers genai sent0 text_input)) = build_prompt text_input \<and>
   last (snd (detect_hipaa_identifiers genai' sent0' text_input)) =
     last (snd (detect_hipaa_identifiers genai sent0 text_input)) \<and>
   butlast (snd (detect_hipaa_identifiers genai sent0 text_input)) = sent0 \<and>
   build_prompt [] = instructions @ ascii ''---\<newline>'' @ ascii ''\<newline>---\<newline>''"
  by (simp add: detect_sent build_prompt_eq)

text \<open>
  Claim C8. When the trigger runs twice on the same input and the service
  answers the second call as it answered the first, both runs show the same elements and
  end in the same way: the only thing the first run leaves behind is the record of its
  call.
\<close>

theorem flow_repeatable:
  assumes "genai (ascii ''gemini-2.5-pro'') (sent (on_click genai sent0 user_input)) (build_prompt user_input) =
           genai (ascii ''gemini-2.5-pro'') sent0 (build_prompt user_input)"
  shows "rendered (on_click genai (sent (on_click genai sent0 user_input)) user_input) =
           rendered (on_click genai sent0 user_input) \<and>
         status (on_click genai (sent (on_click genai sent0 user_input)) user_input) =
           status (on_click genai sent0 user_input)"
proof -
  let ?s1 = "sent (on_click genai sent0 user_input)"
  have "fst (detect_hipaa_identifiers genai ?s1 user_input) =
        fst (detect_hipaa_identifiers genai sent0 user_input)"
    using assms by (simp add: detect_hipaa_identifiers_def Let_def split: sum.split)
  then show ?thesis
    by (rule on_click_page)
qed

text \<open>The theorem at a service that always returns the same text.\<close>

theorem flow_repeatable_witness:
  "rendered (on_click (mock_returning (ascii '' ok ''))
       (sent (on_click (mock_returning (ascii '' ok '')) [] (ascii ''Jane''))) (ascii ''Jane'')) =
     rendered (on_click (mock_returning (ascii '' ok '')) [] (ascii ''Jane''))"
proof -
  let ?g = "mock_returning (ascii '' ok '')"
  have h: "?g (ascii ''gemini-2.5-pro'') (sent (on_click ?g [] (ascii ''Jane''))) (build_prompt (ascii ''Jane'')) =
           ?g (ascii ''gemini-2.5-pro'') [] (build_prompt (ascii ''Jane''))"
    by (simp add: mock_returning_def)
  show ?thesis
    using flow_repeatable [of ?g "[]" "ascii ''Jane''", OF h] by simp
qed

text \<open>
  Claim C9. On an input with a character that is not whitespace, one run
  of the handler adds exactly one prompt to the list of prompts sent, whatever the
  service does (also when it raises: no retry) and whatever was sent before (also the same
  prompt: no cache).
\<close>

theorem one_call_per_invocation:
  assumes "\<exists>c\<in>set user_input. \<not> py_isspace c"
  shows "sent (on_click genai sent0 user_input) = sent0 @ [build_prompt user_input] \<and>
         length (sent (on_click genai sent0 user_input)) = length sent0 + 1"
proof -
  have c: "user_input \<noteq> [] \<and> py_strip user_input \<noteq> []"
    using assms nonblank_cond [of user_input] by blast
  have "snd (detect_hipaa_identifiers genai sent0 user_input) = sent0 @ [build_prompt user_input]"
    by (rule detect_sent)
  then have "sent (on_click genai sent0 user_input) = sent0 @ [build_prompt user_input]"
    using c by (auto simp: on_click_def split: prod.split sum.split)
  then show ?thesis by simp
qed

text \<open>The theorem at a service that raises, after the same prompt was already sent once.\<close>

theorem one_call_per_invocation_witness:
  "(\<exists>c\<in>set (ascii ''Jane''). \<not> py_isspace c) \<and>
   sent (on_click (mock_raising (PyExc OtherException (ascii ''timeout'')))
           [build_prompt (ascii ''Jane'')] (ascii ''Jane'')) =
     [build_prompt (ascii ''Jane''), build_prompt (ascii ''Jane'')]"
proof -
  have h: "\<exists>c\<in>set (ascii ''Jane''). \<not> py_isspace c"
    by (simp add: ascii_def py_isspace_def)
  show ?thesis
    using h one_call_per_invocation
      [OF h, of "mock_raising (PyExc OtherException (ascii ''timeout''))" "[build_prompt (ascii ''Jane'')]"]
    by simp
qed

text \<open>
  Claim C10. There are a fixed prefix \<open>P\<close> and a fixed suffix
  \<open>S\<close> (the closing delimiter line) with \<open>build_prompt x = P @ x @ S\<close> for every
  input. The delimited region is ambiguous: for an input that holds the delimiter line,
  \<open>a @ S @ b\<close>, the prompt begins with the whole prompt of \<open>a\<close>.
\<close>

theorem prompt_is_prefix_input_suffix:
  "\<exists>P S. (\<forall>x. build_prompt x = P @ x @ S) \<and>
          S = ascii ''\<newline>---\<newline>'' \<and>
          (\<forall>a b. build_prompt (a @ S @ b) = build_prompt a @ b @ S)"
proof -
  let ?P = "instructions @ ascii ''---\<newline>''"
  let ?S = "ascii ''\<newline>---\<newline>''"
  have 1: "\<forall>x. build_prompt x = ?P @ x @ ?S"
    by (simp add: build_prompt_eq)
  have 2: "\<forall>a b. build_prompt (a @ ?S @ b) = build_prompt a @ b @ ?S"
    by (simp add: build_prompt_eq)
  from 1 2 show ?thesis by blast
qed

end
